theory Spec2Isabelle
  imports Main "HOL-Library.Word"
begin

unbundle bit_operations_syntax

section \<open>Data of the proxy driver\<close>

text \<open>
  Handles and pointers are opaque 64-bit values (an x64 build) and \<open>NULL\<close> is the value 0;
  the code only copies them, compares them and dereferences them. Nothing below depends
  on their width but the layout \<open>shared_members\<close>. \<open>ULONG\<close>, \<open>UINT\<close> and \<open>NTSTATUS\<close> are 32-bit
  values.
\<close>

type_synonym HANDLE = "64 word"
type_synonym PVOID = "64 word"
type_synonym ULONG = "32 word"
type_synonym NTSTATUS = "32 word"

definition NULL :: PVOID where
  "NULL = 0"

text \<open>
  Modelled from the spec: the macro \<open>NT_SUCCESS\<close> is declared in the driver kit's headers,
  outside the source file. The spec speaks of the delegation "succeeding" or "failing";
  the kit's test is that the status, read as a signed 32-bit value, is not negative, so
  that success and informational codes other than zero succeed too.
\<close>

definition NT_SUCCESS :: "NTSTATUS \<Rightarrow> bool" where
  "NT_SUCCESS st = (0 \<le> sint st)"

text \<open>
  Modelled from the spec: the constant \<open>STATUS_NO_MEMORY\<close> is declared in the driver kit's
  headers, outside the source file. It is the spec's "out-of-memory condition", with the
  kit's value.
\<close>

definition STATUS_NO_MEMORY :: NTSTATUS where
  "STATUS_NO_MEMORY = 0xC0000017"

text \<open>
  Modelled from the spec: the constant \<open>DXGKDDI_INTERFACE_VERSION_WDDM2_0\<close> is declared in
  the driver kit's headers, outside the source file. It is the spec's "WDDM2.0-equivalent
  threshold", with the kit's value. No theorem below depends on the value.
\<close>

definition DXGKDDI_INTERFACE_VERSION_WDDM2_0 :: ULONG where
  "DXGKDDI_INTERFACE_VERSION_WDDM2_0 = 0x5023"

text \<open>
  The creation request \<open>DXGKARG_CREATEDEVICE\<close>, with the members the code reads and
  writes. \<open>Flags\<close> is the 32-bit value of \<open>DXGK_CREATEDEVICEFLAGS\<close>. The structure is declared
  in the driver kit's headers, outside the source file.
\<close>

record DXGKARG_CREATEDEVICE =
  hDevice :: HANDLE
  Flags :: ULONG
  pInfo :: PVOID
  Pasid :: ULONG
  hKmdProcess :: HANDLE

text \<open>
  The shadow record \<open>LJB_DEVICE\<close>, with the members the code reads and writes (its
  declaration is in \<open>ljb_proxykmd.h\<close>, outside the source file). Its member \<open>hDevice\<close> (the handle the driver assigned)
  is named \<open>LJB_hDevice\<close> here, apart from the request's member of the same name. Its
  member \<open>ListEntry\<close> is the linkage of the intrusive list: the list itself stands for it
  in the state below. \<open>'i\<close> is the type of a \<open>DXGK_DEVICEINFO\<close> block, whose declaration
  is outside the source file; its zero is the block of a zero-filled allocation.
\<close>

record 'i LJB_DEVICE =
  hRTDevice :: HANDLE
  Adapter :: PVOID
  CreateDevice :: DXGKARG_CREATEDEVICE
  LJB_hDevice :: HANDLE
  DeviceInfo :: 'i

text \<open>
  The downstream driver's entry \<open>DxgkDdiCreateDevice\<close> is opaque: given the adapter handle,
  the request and the memory it owns, it returns a status, the request as it left it
  (it writes into the caller's request in place) and its memory. That memory maps an
  address to the \<open>DXGK_DEVICEINFO\<close> block readable there, if any. The driver knows nothing
  of the proxy driver's pool blocks and list, and leaves them alone.
\<close>

type_synonym 'i memory = "PVOID \<Rightarrow> 'i option"

record 'i DRIVER_INITIALIZATION_DATA =
  Version :: ULONG
  DxgkDdiCreateDevice ::
    "HANDLE \<Rightarrow> DXGKARG_CREATEDEVICE \<Rightarrow> 'i memory \<Rightarrow> NTSTATUS \<times> DXGKARG_CREATEDEVICE \<times> 'i memory"

text \<open>
  What \<open>FIND_ADAPTER_BY_DRIVER_ADAPTER\<close> resolves an adapter handle to: the address of the
  \<open>LJB_ADAPTER\<close> and the \<open>DriverInitData\<close> reached through its \<open>ClientDriverData\<close>. The
  macro is outside the source file and is a parameter of the model.
\<close>

record 'i LJB_ADAPTER =
  Address :: PVOID
  DriverInitData :: "'i DRIVER_INITIALIZATION_DATA"

text \<open>
  The state: the blocks of pool memory that are allocated, the list
  \<open>GlobalDriverData.ClientDeviceListHead\<close> in \<open>Flink\<close> order (each entry the address of a
  shadow record with the record stored there), and the driver's memory.
\<close>

record 'i kstate =
  Pool :: "PVOID set"
  ClientDeviceListHead :: "(PVOID \<times> 'i LJB_DEVICE) list"
  Memory :: "'i memory"

text \<open>
  The calls and stores an operation makes, in program order. \<open>Store p m\<close> is a store into
  member \<open>m\<close> of the shadow record at \<open>p\<close>; \<open>Visit p\<close> is one iteration of the lookup loop,
  reading the record at \<open>p\<close>.
\<close>

datatype member =
  M_ListEntry | M_hRTDevice | M_Adapter | M_CreateDevice_hDevice | M_CreateDevice_Flags
  | M_CreateDevice_Pasid | M_CreateDevice_hKmdProcess | M_hDevice | M_DeviceInfo

datatype event =
  GetPoolZero PVOID
  | Store PVOID member
  | Call_DxgkDdiCreateDevice
  | FreePool PVOID
  | KeAcquireSpinLock
  | InsertTailList PVOID
  | Visit PVOID
  | KeReleaseSpinLock

text \<open>Reading a \<open>DXGK_DEVICEINFO\<close> through a pointer with no readable block behind it.\<close>

datatype fault = AccessViolation

record 'i returned =
  status :: NTSTATUS
  request :: DXGKARG_CREATEDEVICE
  after :: "'i kstate"

section \<open>LJB_DXGK_CreateDevice\<close>

text \<open>
  The declaration of \<open>DXGKARG_CREATEDEVICE\<close> is outside the source file, and with it
  whether the members \<open>Flags\<close> and \<open>pInfo\<close> have storage of their own or share it. The
  code stores \<open>Flags\<close> into the shadow's copy of the request and later reads that copy's
  \<open>pInfo\<close>, which it never stores. What the store of \<open>Flags\<close> leaves in \<open>pInfo\<close> is
  therefore a parameter: \<open>ov f p\<close> is what \<open>pInfo\<close> reads once \<open>f\<close> has been stored into
  \<open>Flags\<close> of a structure whose \<open>pInfo\<close> read \<open>p\<close>. Where the two members share storage
  the \<open>Flags\<close> and \<open>pInfo\<close> of a request are two readings of one cell; the theorems below
  hold for every request, those included.
\<close>

type_synonym overlay = "ULONG \<Rightarrow> PVOID \<Rightarrow> PVOID"

text \<open>Members with storage of their own, as the spec lists the request's fields.\<close>

definition separate_members :: overlay where
  "separate_members f p = p"

text \<open>
  The two members in one union, little-endian: the store replaces the low 32 bits of
  the pointer-sized cell.
\<close>

definition shared_members :: overlay where
  "shared_members f p = (p AND NOT (mask 32)) OR ucast f"

definition zero_DXGKARG_CREATEDEVICE :: DXGKARG_CREATEDEVICE where
  "zero_DXGKARG_CREATEDEVICE =
     \<lparr>hDevice = 0, Flags = 0, pInfo = 0, Pasid = 0, hKmdProcess = 0\<rparr>"

text \<open>
  Modelled from the spec: \<open>LJB_PROXYKMD_GetPoolZero\<close> is outside the source file. By the
  spec it either fails or hands out "a zero-initialized Shadow Device": every member
  zero.
\<close>

definition zero_LJB_DEVICE :: "('i::zero) LJB_DEVICE" where
  "zero_LJB_DEVICE =
     \<lparr>hRTDevice = 0, Adapter = 0, CreateDevice = zero_DXGKARG_CREATEDEVICE,
      LJB_hDevice = 0, DeviceInfo = 0\<rparr>"

text \<open>Lines 90 to 101: the shadow record as it stands when the driver is called.\<close>

definition populate ::
  "overlay \<Rightarrow> ('i::zero) LJB_ADAPTER \<Rightarrow> DXGKARG_CREATEDEVICE \<Rightarrow> 'i LJB_DEVICE" where
  "populate ov A req =
     (let d = zero_LJB_DEVICE\<lparr>hRTDevice := hDevice req, Adapter := Address A\<rparr>;
          c1 = (CreateDevice d)\<lparr>hDevice := hDevice req\<rparr>;
          c2 = c1\<lparr>Flags := Flags req, pInfo := ov (Flags req) (pInfo c1)\<rparr>;
          c3 = (if DXGKDDI_INTERFACE_VERSION_WDDM2_0 \<le> Version (DriverInitData A)
                then c2\<lparr>Pasid := Pasid req, hKmdProcess := hKmdProcess req\<rparr>
                else c2)
      in d\<lparr>CreateDevice := c3\<rparr>)"

definition populate_events :: "'i LJB_ADAPTER \<Rightarrow> PVOID \<Rightarrow> event list" where
  "populate_events A p =
     [Store p M_ListEntry, Store p M_hRTDevice, Store p M_Adapter,
      Store p M_CreateDevice_hDevice, Store p M_CreateDevice_Flags]
     @ (if DXGKDDI_INTERFACE_VERSION_WDDM2_0 \<le> Version (DriverInitData A)
        then [Store p M_CreateDevice_Pasid, Store p M_CreateDevice_hKmdProcess]
        else [])"

text \<open>
  Lines 118 to 120: the driver's handle is stored, and the driver's info block is read
  and copied when the request's \<open>pInfo\<close> differs from the shadow's.
\<close>

definition track ::
  "'i LJB_DEVICE \<Rightarrow> DXGKARG_CREATEDEVICE \<Rightarrow> 'i memory \<Rightarrow> fault + 'i LJB_DEVICE" where
  "track d req' mem =
     (let d1 = d\<lparr>LJB_hDevice := hDevice req'\<rparr>
      in if pInfo req' \<noteq> pInfo (CreateDevice d1)
         then (case mem (pInfo req') of
                 None \<Rightarrow> Inl AccessViolation
               | Some blk \<Rightarrow> Inr (d1\<lparr>DeviceInfo := blk\<rparr>))
         else Inr d1)"

text \<open>
  The stores of lines 118 to 120 on a run that gets past them. A run that faults on the
  read of line 120 has stored the handle and nothing after it.
\<close>

definition track_events :: "'i LJB_DEVICE \<Rightarrow> DXGKARG_CREATEDEVICE \<Rightarrow> PVOID \<Rightarrow> event list" where
  "track_events d req' p =
     Store p M_hDevice
     # (if pInfo req' \<noteq> pInfo (CreateDevice d) then [Store p M_DeviceInfo] else [])"

text \<open>
  The operation. \<open>find_adapter\<close> is \<open>FIND_ADAPTER_BY_DRIVER_ADAPTER\<close>; \<open>p\<close> is the pointer
  \<open>LJB_PROXYKMD_GetPoolZero\<close> returns to this call (\<open>NULL\<close> when it fails). The result is
  the calls and stores made, and either the fault that stopped the operation or what it
  returned: the status, the caller's request as it was left, and the state.
  \<open>DBG_PRINT\<close> and \<open>PAGED_CODE\<close> change nothing here and are left out.
\<close>

definition LJB_DXGK_CreateDevice ::
  "overlay \<Rightarrow> (HANDLE \<Rightarrow> ('i::zero) LJB_ADAPTER) \<Rightarrow> PVOID \<Rightarrow> HANDLE \<Rightarrow> DXGKARG_CREATEDEVICE
     \<Rightarrow> 'i kstate \<Rightarrow> event list \<times> (fault + 'i returned)" where
  "LJB_DXGK_CreateDevice ov find_adapter p hAdapter req s =
     (let A = find_adapter hAdapter;
          InitData = DriverInitData A
      in if p = NULL
         then ([GetPoolZero p], Inr \<lparr>status = STATUS_NO_MEMORY, request = req, after = s\<rparr>)
         else
           (let s1 = s\<lparr>Pool := insert p (Pool s)\<rparr>;
                MyDevice = populate ov A req;
                ev1 = GetPoolZero p # populate_events A p
            in case DxgkDdiCreateDevice InitData hAdapter req (Memory s1) of
                 (ntStatus, req', mem') \<Rightarrow>
                   (let s2 = s1\<lparr>Memory := mem'\<rparr>;
                        ev2 = ev1 @ [Call_DxgkDdiCreateDevice]
                    in if \<not> NT_SUCCESS ntStatus
                       then (ev2 @ [FreePool p],
                             Inr \<lparr>status = ntStatus, request = req',
                                  after = s2\<lparr>Pool := Pool s2 - {p}\<rparr>\<rparr>)
                       else
                         (case track MyDevice req' mem' of
                            Inl f \<Rightarrow> (ev2 @ [Store p M_hDevice], Inl f)
                          | Inr MyDevice' \<Rightarrow>
                              (ev2 @ track_events MyDevice req' p
                                 @ [KeAcquireSpinLock, InsertTailList p, KeReleaseSpinLock],
                               Inr \<lparr>status = ntStatus, request = req',
                                    after = s2\<lparr>ClientDeviceListHead :=
                                      ClientDeviceListHead s2 @ [(p, MyDevice')]\<rparr>\<rparr>)))))"

section \<open>LJB_DXGK_FindDevice\<close>

text \<open>The loop of lines 148 to 160: the pointer it leaves in \<open>MyDevice\<close>, \<open>NULL\<close> at first.\<close>

fun scan :: "HANDLE \<Rightarrow> (PVOID \<times> 'i LJB_DEVICE) list \<Rightarrow> PVOID" where
  "scan h [] = NULL"
| "scan h ((thisDevice, d) # es) = (if LJB_hDevice d = h then thisDevice else scan h es)"

fun scan_events :: "HANDLE \<Rightarrow> (PVOID \<times> 'i LJB_DEVICE) list \<Rightarrow> event list" where
  "scan_events h [] = []"
| "scan_events h ((thisDevice, d) # es) =
     Visit thisDevice # (if LJB_hDevice d = h then [] else scan_events h es)"

definition LJB_DXGK_FindDevice ::
  "HANDLE \<Rightarrow> 'i kstate \<Rightarrow> event list \<times> PVOID \<times> 'i kstate" where
  "LJB_DXGK_FindDevice h s =
     (KeAcquireSpinLock # scan_events h (ClientDeviceListHead s) @ [KeReleaseSpinLock],
      scan h (ClientDeviceListHead s), s)"

text \<open>The key of the lookup: an entry of the list whose record carries the driver's handle \<open>h\<close>.\<close>

definition keyed_by :: "HANDLE \<Rightarrow> PVOID \<times> 'i LJB_DEVICE \<Rightarrow> bool" where
  "keyed_by h e = (LJB_hDevice (snd e) = h)"

section \<open>Lock discipline\<close>

text \<open>
  The spec's lock discipline, read over the calls and stores of one operation. With the
  lock held only the list insertion and the iterations of the lookup loop may happen;
  everything else (allocation, stores into the shadow record, the downstream call, the
  release of the block) happens with the lock free; the lock is acquired only when
  free, released only when held, and free when the operation ends.
\<close>

fun lock_discipline :: "bool \<Rightarrow> event list \<Rightarrow> bool" where
  "lock_discipline held [] = (\<not> held)"
| "lock_discipline held (KeAcquireSpinLock # es) = (\<not> held \<and> lock_discipline True es)"
| "lock_discipline held (KeReleaseSpinLock # es) = (held \<and> lock_discipline False es)"
| "lock_discipline held (InsertTailList p # es) = (held \<and> lock_discipline held es)"
| "lock_discipline held (Visit p # es) = (held \<and> lock_discipline held es)"
| "lock_discipline held (e # es) = (\<not> held \<and> lock_discipline held es)"

section \<open>Concrete inputs\<close>

text \<open>
  Inputs on which the operations are run below. The request is the one of the spec's
  example scenario. The driver returns the given status, writes the given handle and
  info pointer into the request and makes a block readable at that pointer; info blocks
  are natural numbers here.
\<close>

definition example_request :: DXGKARG_CREATEDEVICE where
  "example_request = \<lparr>hDevice = 0x100, Flags = 1, pInfo = 1, Pasid = 7, hKmdProcess = 0x55\<rparr>"

definition example_driver ::
  "NTSTATUS \<Rightarrow> HANDLE \<Rightarrow> PVOID \<Rightarrow> HANDLE \<Rightarrow> DXGKARG_CREATEDEVICE \<Rightarrow> nat memory
     \<Rightarrow> NTSTATUS \<times> DXGKARG_CREATEDEVICE \<times> nat memory" where
  "example_driver st handle info hAdapter req mem =
     (st, req\<lparr>hDevice := handle, pInfo := info\<rparr>, mem(info := Some 42))"

definition example_adapter ::
  "ULONG \<Rightarrow> NTSTATUS \<Rightarrow> HANDLE \<Rightarrow> PVOID \<Rightarrow> HANDLE \<Rightarrow> nat LJB_ADAPTER" where
  "example_adapter version st handle info hAdapter =
     \<lparr>Address = 0x10,
      DriverInitData =
        \<lparr>Version = version, DxgkDdiCreateDevice = example_driver st handle info\<rparr>\<rparr>"

text \<open>
  A driver that returns the given status and writes the given handle and info pointer
  into the request, and makes nothing readable at that pointer.
\<close>

definition dangling_driver ::
  "NTSTATUS \<Rightarrow> HANDLE \<Rightarrow> PVOID \<Rightarrow> HANDLE \<Rightarrow> DXGKARG_CREATEDEVICE \<Rightarrow> nat memory
     \<Rightarrow> NTSTATUS \<times> DXGKARG_CREATEDEVICE \<times> nat memory" where
  "dangling_driver st handle info hAdapter req mem =
     (st, req\<lparr>hDevice := handle, pInfo := info\<rparr>, mem)"

definition dangling_adapter ::
  "ULONG \<Rightarrow> NTSTATUS \<Rightarrow> HANDLE \<Rightarrow> PVOID \<Rightarrow> HANDLE \<Rightarrow> nat LJB_ADAPTER" where
  "dangling_adapter version st handle info hAdapter =
     \<lparr>Address = 0x10,
      DriverInitData =
        \<lparr>Version = version, DxgkDdiCreateDevice = dangling_driver st handle info\<rparr>\<rparr>"

definition empty_state :: "nat kstate" where
  "empty_state = \<lparr>Pool = {}, ClientDeviceListHead = [], Memory = (\<lambda>a. None)\<rparr>"

text \<open>
  A request whose \<open>pInfo\<close> has no bit set below bit 32, so that its \<open>Flags\<close> and \<open>pInfo\<close> are
  consistent whether or not the two members share storage.
\<close>

definition high_pointer_request :: DXGKARG_CREATEDEVICE where
  "high_pointer_request =
     \<lparr>hDevice = 0x100, Flags = 0, pInfo = 0x100000000, Pasid = 7, hKmdProcess = 0x55\<rparr>"

text \<open>
  The shadow record a creation from \<open>example_request\<close> leaves (members with storage of their
  own, interface version at the threshold), and the list after one and after two such
  creations to which the driver gave the same handle.
\<close>

definition example_device :: "HANDLE \<Rightarrow> HANDLE \<Rightarrow> nat LJB_DEVICE" where
  "example_device runtime driver =
     \<lparr>hRTDevice = runtime, Adapter = 0x10,
      CreateDevice = \<lparr>hDevice = runtime, Flags = 1, pInfo = 0, Pasid = 7, hKmdProcess = 0x55\<rparr>,
      LJB_hDevice = driver, DeviceInfo = 42\<rparr>"

definition one_device_state :: "nat kstate" where
  "one_device_state =
     \<lparr>Pool = {0x1000}, ClientDeviceListHead = [(0x1000, example_device 0x100 0x200)],
      Memory = (\<lambda>a. None)(1 := Some 42)\<rparr>"

definition two_devices_state :: "nat kstate" where
  "two_devices_state =
     \<lparr>Pool = {0x1000, 0x2000},
      ClientDeviceListHead =
        [(0x1000, example_device 0x100 0x200), (0x2000, example_device 0x300 0x200)],
      Memory = (\<lambda>a. None)(1 := Some 42)\<rparr>"

section \<open>The paths of LJB_DXGK_CreateDevice\<close>

lemmas model_defs =
  LJB_DXGK_CreateDevice_def populate_def populate_events_def track_def track_events_def
  zero_LJB_DEVICE_def zero_DXGKARG_CREATEDEVICE_def NT_SUCCESS_def NULL_def
  STATUS_NO_MEMORY_def DXGKDDI_INTERFACE_VERSION_WDDM2_0_def
  separate_members_def shared_members_def Let_def

lemmas example_defs =
  example_adapter_def example_driver_def example_request_def empty_state_def
  dangling_adapter_def dangling_driver_def
  example_device_def one_device_state_def two_devices_state_def high_pointer_request_def

lemma NT_SUCCESS_NO_MEMORY: "\<not> NT_SUCCESS STATUS_NO_MEMORY"
  by (simp add: NT_SUCCESS_def STATUS_NO_MEMORY_def)

lemma CreateDevice_no_memory:
  "LJB_DXGK_CreateDevice ov fa NULL h req s =
     ([GetPoolZero NULL], Inr \<lparr>status = STATUS_NO_MEMORY, request = req, after = s\<rparr>)"
  by (simp add: LJB_DXGK_CreateDevice_def)

lemma CreateDevice_driver_failed:
  assumes "p \<noteq> NULL"
    and "DxgkDdiCreateDevice (DriverInitData (fa h)) h req (Memory s) = (st, req', mem')"
    and "\<not> NT_SUCCESS st"
  shows "LJB_DXGK_CreateDevice ov fa p h req s =
     (GetPoolZero p # populate_events (fa h) p @ [Call_DxgkDdiCreateDevice, FreePool p],
      Inr \<lparr>status = st, request = req',
           after = s\<lparr>Pool := insert p (Pool s) - {p}, Memory := mem'\<rparr>\<rparr>)"
  using assms by (simp add: LJB_DXGK_CreateDevice_def Let_def)

lemma CreateDevice_driver_succeeded:
  assumes "p \<noteq> NULL"
    and "DxgkDdiCreateDevice (DriverInitData (fa h)) h req (Memory s) = (st, req', mem')"
    and "NT_SUCCESS st"
  shows "LJB_DXGK_CreateDevice ov fa p h req s =
     (case track (populate ov (fa h) req) req' mem' of
        Inl f \<Rightarrow>
          (GetPoolZero p # populate_events (fa h) p
             @ [Call_DxgkDdiCreateDevice, Store p M_hDevice], Inl f)
      | Inr d \<Rightarrow>
          (GetPoolZero p # populate_events (fa h) p @ [Call_DxgkDdiCreateDevice]
             @ track_events (populate ov (fa h) req) req' p
             @ [KeAcquireSpinLock, InsertTailList p, KeReleaseSpinLock],
           Inr \<lparr>status = st, request = req',
                after = s\<lparr>Pool := insert p (Pool s), Memory := mem',
                  ClientDeviceListHead := ClientDeviceListHead s @ [(p, d)]\<rparr>\<rparr>))"
  using assms by (simp add: LJB_DXGK_CreateDevice_def Let_def split: sum.splits)

lemma populate_pInfo: "pInfo (CreateDevice (populate ov A req)) = ov (Flags req) NULL"
  by (simp add: populate_def Let_def zero_LJB_DEVICE_def zero_DXGKARG_CREATEDEVICE_def NULL_def)

lemma populate_DeviceInfo: "DeviceInfo (populate ov A req) = 0"
  by (simp add: populate_def Let_def zero_LJB_DEVICE_def)

lemma populate_hRTDevice: "hRTDevice (populate ov A req) = hDevice req"
  by (simp add: populate_def Let_def zero_LJB_DEVICE_def)

lemma populate_LJB_hDevice: "LJB_hDevice (populate ov A req) = 0"
  by (simp add: populate_def Let_def zero_LJB_DEVICE_def)

lemma track_cases:
  "track (populate ov A req) req' mem' =
     (if pInfo req' = ov (Flags req) NULL
      then Inr ((populate ov A req)\<lparr>LJB_hDevice := hDevice req'\<rparr>)
      else case mem' (pInfo req') of
             None \<Rightarrow> Inl AccessViolation
           | Some blk \<Rightarrow> Inr ((populate ov A req)\<lparr>LJB_hDevice := hDevice req', DeviceInfo := blk\<rparr>))"
  by (simp add: track_def Let_def populate_pInfo)

lemma CreateDevice_success:
  assumes "LJB_DXGK_CreateDevice ov fa p h req s = (ev, Inr r)"
    and "NT_SUCCESS (status r)"
  shows "\<exists>st req' mem' d.
           p \<noteq> NULL
           \<and> DxgkDdiCreateDevice (DriverInitData (fa h)) h req (Memory s) = (st, req', mem')
           \<and> NT_SUCCESS st
           \<and> track (populate ov (fa h) req) req' mem' = Inr d
           \<and> ev = GetPoolZero p # populate_events (fa h) p @ [Call_DxgkDdiCreateDevice]
                    @ track_events (populate ov (fa h) req) req' p
                    @ [KeAcquireSpinLock, InsertTailList p, KeReleaseSpinLock]
           \<and> r = \<lparr>status = st, request = req',
                    after = s\<lparr>Pool := insert p (Pool s), Memory := mem',
                      ClientDeviceListHead := ClientDeviceListHead s @ [(p, d)]\<rparr>\<rparr>"
proof -
  have p: "p \<noteq> NULL"
  proof
    assume "p = NULL"
    with assms(1) have "status r = STATUS_NO_MEMORY"
      by (auto simp add: CreateDevice_no_memory)
    with assms(2) show False by (simp add: NT_SUCCESS_NO_MEMORY)
  qed
  obtain st req' mem' where
    drv: "DxgkDdiCreateDevice (DriverInitData (fa h)) h req (Memory s) = (st, req', mem')"
    by (cases "DxgkDdiCreateDevice (DriverInitData (fa h)) h req (Memory s)")
  have st: "NT_SUCCESS st"
  proof (rule ccontr)
    assume "\<not> NT_SUCCESS st"
    from CreateDevice_driver_failed [where fa = fa and h = h, OF p drv this, of ov] assms(1)
    have "status r = st" by auto
    with assms(2) \<open>\<not> NT_SUCCESS st\<close> show False by simp
  qed
  show ?thesis
    using CreateDevice_driver_succeeded [where fa = fa and h = h, OF p drv st, of ov] assms(1) p drv st
    by (auto split: sum.splits)
qed

lemma example_driver_returns:
  assumes "p \<noteq> NULL"
  shows "\<exists>ev r. LJB_DXGK_CreateDevice ov (example_adapter version 0 handle info) p hAdapter req s
                  = (ev, Inr r)
           \<and> status r = 0 \<and> request r = req\<lparr>hDevice := handle, pInfo := info\<rparr>"
proof -
  have drv: "DxgkDdiCreateDevice (DriverInitData (example_adapter version 0 handle info hAdapter))
               hAdapter req (Memory s)
             = (0, req\<lparr>hDevice := handle, pInfo := info\<rparr>, (Memory s)(info := Some 42))"
    by (simp add: example_adapter_def example_driver_def)
  have ok: "NT_SUCCESS 0" by (simp add: NT_SUCCESS_def)
  show ?thesis
    by (simp add: CreateDevice_driver_succeeded
          [where fa = "example_adapter version 0 handle info" and h = hAdapter, OF assms drv ok]
          track_cases)
qed

text \<open>
  When the block is copied: the comparison of line 119 is with the shadow's own
  \<open>CreateDevice.pInfo\<close>, that is with \<open>ov (Flags req) NULL\<close>.
\<close>

lemma DeviceInfo_copy_condition:
  assumes "p \<noteq> NULL"
    and "DxgkDdiCreateDevice (DriverInitData (find_adapter hAdapter)) hAdapter req (Memory s)
           = (st, req', mem')"
    and "NT_SUCCESS st"
  shows "if pInfo req' = ov (Flags req) NULL
         then \<exists>ev r d. LJB_DXGK_CreateDevice ov find_adapter p hAdapter req s = (ev, Inr r)
                \<and> ClientDeviceListHead (after r) = ClientDeviceListHead s @ [(p, d)]
                \<and> DeviceInfo d = 0
         else case mem' (pInfo req') of
                None \<Rightarrow> snd (LJB_DXGK_CreateDevice ov find_adapter p hAdapter req s) = Inl AccessViolation
              | Some blk \<Rightarrow>
                  \<exists>ev r d. LJB_DXGK_CreateDevice ov find_adapter p hAdapter req s = (ev, Inr r)
                    \<and> ClientDeviceListHead (after r) = ClientDeviceListHead s @ [(p, d)]
                    \<and> DeviceInfo d = blk"
  by (simp add: CreateDevice_driver_succeeded [where fa = find_adapter and h = hAdapter, OF assms]
        track_cases populate_DeviceInfo split: option.splits)

text \<open>
  What the shadow's \<open>CreateDevice.pInfo\<close> holds when the driver returns, under the two
  layouts: \<open>NULL\<close> when the members have storage of their own, the zero-extended \<open>Flags\<close>
  when they share it.
\<close>

lemma separate_members_NULL: "separate_members f NULL = NULL"
  by (simp add: separate_members_def)

lemma shared_members_NULL: "shared_members f NULL = ucast f"
  by (simp add: shared_members_def NULL_def)

text \<open>
  Where the members share storage and the caller's cell is the zero-extended \<open>Flags\<close>, the
  comparison of line 119 is the comparison with the pointer the caller passed.
\<close>

lemma shared_members_snapshot:
  "pInfo req = ucast (Flags req) \<Longrightarrow>
     pInfo (CreateDevice (populate shared_members A req)) = pInfo req"
  by (simp add: populate_pInfo shared_members_NULL)

section \<open>The loop of LJB_DXGK_FindDevice\<close>

lemma scan_find:
  "scan h l = (case find (keyed_by h) l of None \<Rightarrow> NULL | Some e \<Rightarrow> fst e)"
  by (induction l) (auto simp add: keyed_by_def)

lemma scan_events_prefix:
  "scan_events h l =
     map (Visit \<circ> fst) (takeWhile (\<lambda>e. \<not> keyed_by h e) l @ take 1 (dropWhile (\<lambda>e. \<not> keyed_by h e) l))"
  by (induction l) (auto simp add: keyed_by_def)

lemma scan_no_match: "\<forall>e \<in> set l. \<not> keyed_by h e \<Longrightarrow> scan h l = NULL"
  by (induction l) (auto simp add: keyed_by_def)

lemma scan_append_new:
  "\<forall>e \<in> set l. \<not> keyed_by h e \<Longrightarrow> LJB_hDevice d = h \<Longrightarrow> scan h (l @ [(p, d)]) = p"
  by (induction l) (auto simp add: keyed_by_def)

lemma filter_append_new:
  "\<forall>e \<in> set l. \<not> keyed_by h e \<Longrightarrow> LJB_hDevice d = h \<Longrightarrow>
     filter (keyed_by h) (l @ [(p, d)]) = [(p, d)]"
  by (induction l) (auto simp add: keyed_by_def)

section \<open>The lock along one operation\<close>

lemma lock_discipline_scan:
  "lock_discipline True (scan_events h l @ [KeReleaseSpinLock])"
  by (induction l) auto

lemma lock_discipline_append:
  "lock_discipline held es \<Longrightarrow> lock_discipline False es' \<Longrightarrow> lock_discipline held (es @ es')"
  by (induction held es rule: lock_discipline.induct) auto

lemma lock_discipline_free_append:
  "lock_discipline False es \<Longrightarrow> lock_discipline False es' \<Longrightarrow> lock_discipline False (es @ es')"
  by (rule lock_discipline_append)

lemma lock_discipline_populate: "lock_discipline False (populate_events A p)"
  by (simp add: populate_events_def)

lemma lock_discipline_track: "lock_discipline False (track_events d req' p)"
  by (simp add: track_events_def)

section \<open>Claims\<close>

text \<open>
  C1. The code fails the claim. The request passes the pointer 0x100000000 in \<open>pInfo\<close>;
  the driver succeeds, fills the block at that address and leaves the pointer as it was
  passed. The claim has \<open>DeviceInfo\<close> stay zero; the code copies the block (42), whether
  \<open>Flags\<close> and \<open>pInfo\<close> have storage of their own or share it: line 119 compares with the
  shadow's \<open>CreateDevice.pInfo\<close>, which lines 94 to 101 never fill from the request's
  \<open>pInfo\<close>.
\<close>

theorem deviceInfo_copied_though_pointer_unchanged:
  "snd (LJB_DXGK_CreateDevice separate_members (example_adapter 0x5023 0 0x200 0x100000000)
          0x1000 1 high_pointer_request empty_state)
     = Inr \<lparr>status = 0, request = high_pointer_request\<lparr>hDevice := 0x200\<rparr>,
            after = \<lparr>Pool = {0x1000},
                     ClientDeviceListHead =
                       [(0x1000,
                         \<lparr>hRTDevice = 0x100, Adapter = 0x10,
                          CreateDevice = \<lparr>hDevice = 0x100, Flags = 0, pInfo = 0, Pasid = 7,
                                           hKmdProcess = 0x55\<rparr>,
                          LJB_hDevice = 0x200, DeviceInfo = 42\<rparr>)],
                     Memory = (\<lambda>a. None)(0x100000000 := Some 42)\<rparr>\<rparr>
   \<and> snd (LJB_DXGK_CreateDevice shared_members (example_adapter 0x5023 0 0x200 0x100000000)
          0x1000 1 high_pointer_request empty_state)
     = Inr \<lparr>status = 0, request = high_pointer_request\<lparr>hDevice := 0x200\<rparr>,
            after = \<lparr>Pool = {0x1000},
                     ClientDeviceListHead =
                       [(0x1000,
                         \<lparr>hRTDevice = 0x100, Adapter = 0x10,
                          CreateDevice = \<lparr>hDevice = 0x100, Flags = 0, pInfo = 0, Pasid = 7,
                                           hKmdProcess = 0x55\<rparr>,
                          LJB_hDevice = 0x200, DeviceInfo = 42\<rparr>)],
                     Memory = (\<lambda>a. None)(0x100000000 := Some 42)\<rparr>\<rparr>
   \<and> pInfo (high_pointer_request\<lparr>hDevice := 0x200\<rparr>) = pInfo high_pointer_request
   \<and> (42 :: nat) \<noteq> 0"
  by (simp add: model_defs example_defs)

text \<open>
  C2. When the downstream driver returns a failure status, the operation releases the
  block it allocated (the pool is as before, and the release is its last call), inserts
  nothing into the list, and returns the driver's status.
\<close>

theorem driver_failure_unwinds:
  assumes "p \<noteq> NULL"
    and "p \<notin> Pool s"
    and "DxgkDdiCreateDevice (DriverInitData (find_adapter hAdapter)) hAdapter req (Memory s)
           = (st, req', mem')"
    and "\<not> NT_SUCCESS st"
  shows "\<exists>ev r. LJB_DXGK_CreateDevice ov find_adapter p hAdapter req s = (ev, Inr r)
           \<and> status r = st
           \<and> ClientDeviceListHead (after r) = ClientDeviceListHead s
           \<and> Pool (after r) = Pool s
           \<and> GetPoolZero p \<in> set ev \<and> last ev = FreePool p
           \<and> (\<forall>q. InsertTailList q \<notin> set ev)"
  using assms
  by (auto simp add: CreateDevice_driver_failed [where fa = find_adapter and h = hAdapter, OF assms(1) assms(3) assms(4)]
       populate_events_def)

theorem driver_failure_unwinds_witness:
  "\<exists>ev r. LJB_DXGK_CreateDevice separate_members (example_adapter 0x5023 0xC000000D 0x200 1)
             0x1000 1 example_request empty_state = (ev, Inr r)
           \<and> status r = 0xC000000D
           \<and> ClientDeviceListHead (after r) = []
           \<and> Pool (after r) = {}
           \<and> GetPoolZero 0x1000 \<in> set ev \<and> last ev = FreePool 0x1000
           \<and> (\<forall>q. InsertTailList q \<notin> set ev)"
proof -
  have 1: "(0x1000 :: PVOID) \<noteq> NULL" by (simp add: NULL_def)
  have 2: "(0x1000 :: PVOID) \<notin> Pool empty_state" by (simp add: empty_state_def)
  have 3: "DxgkDdiCreateDevice (DriverInitData (example_adapter 0x5023 0xC000000D 0x200 1 1)) 1
             example_request (Memory empty_state)
           = (0xC000000D, example_request\<lparr>hDevice := 0x200, pInfo := 1\<rparr>,
              (Memory empty_state)(1 := Some 42))"
    by (simp add: example_adapter_def example_driver_def)
  have 4: "\<not> NT_SUCCESS 0xC000000D" by (simp add: NT_SUCCESS_def)
  show ?thesis
    using driver_failure_unwinds [where find_adapter = "example_adapter 0x5023 0xC000000D 0x200 1"
        and hAdapter = 1 and ov = separate_members, OF 1 2 3 4]
    by (simp add: empty_state_def)
qed

text \<open>
  C3. When the allocation of the shadow record fails (\<open>LJB_PROXYKMD_GetPoolZero\<close> returns
  \<open>NULL\<close>), the operation returns \<open>STATUS_NO_MEMORY\<close>, the only call it has made is the
  allocation (the downstream driver is never invoked), and the state and the caller's
  request are as they were.
\<close>

theorem no_memory:
  "LJB_DXGK_CreateDevice ov find_adapter NULL hAdapter req s =
     ([GetPoolZero NULL], Inr \<lparr>status = STATUS_NO_MEMORY, request = req, after = s\<rparr>)
   \<and> Call_DxgkDdiCreateDevice \<notin> set (fst (LJB_DXGK_CreateDevice ov find_adapter NULL hAdapter req s))"
  by (simp add: CreateDevice_no_memory)

theorem no_memory_witness:
  "LJB_DXGK_CreateDevice separate_members (example_adapter 0x5023 0 0x200 1) NULL 1
       example_request empty_state =
     ([GetPoolZero NULL],
      Inr \<lparr>status = 0xC0000017, request = example_request, after = empty_state\<rparr>)"
  using no_memory [of separate_members "example_adapter 0x5023 0 0x200 1" 1 example_request empty_state]
  by (simp add: STATUS_NO_MEMORY_def)

text \<open>
  C4. The shadow's \<open>CreateDevice.Pasid\<close> and \<open>CreateDevice.hKmdProcess\<close> are the request's
  when the interface version is at or above \<open>DXGKDDI_INTERFACE_VERSION_WDDM2_0\<close>, and zero
  below it whatever the request holds: both in the record as it stands when the driver
  is called, and in the record the list holds after a successful creation.
\<close>

theorem process_association:
  "Pasid (CreateDevice (populate ov (find_adapter hAdapter) req)) =
     (if DXGKDDI_INTERFACE_VERSION_WDDM2_0 \<le> Version (DriverInitData (find_adapter hAdapter))
      then Pasid req else 0)
   \<and> hKmdProcess (CreateDevice (populate ov (find_adapter hAdapter) req)) =
     (if DXGKDDI_INTERFACE_VERSION_WDDM2_0 \<le> Version (DriverInitData (find_adapter hAdapter))
      then hKmdProcess req else 0)
   \<and> (LJB_DXGK_CreateDevice ov find_adapter p hAdapter req s = (ev, Inr r) \<and> NT_SUCCESS (status r)
        \<longrightarrow> (\<exists>d. ClientDeviceListHead (after r) = ClientDeviceListHead s @ [(p, d)]
                 \<and> Pasid (CreateDevice d) =
                     (if DXGKDDI_INTERFACE_VERSION_WDDM2_0
                           \<le> Version (DriverInitData (find_adapter hAdapter))
                      then Pasid req else 0)
                 \<and> hKmdProcess (CreateDevice d) =
                     (if DXGKDDI_INTERFACE_VERSION_WDDM2_0
                           \<le> Version (DriverInitData (find_adapter hAdapter))
                      then hKmdProcess req else 0)))"
proof (intro conjI impI)
  show P: "Pasid (CreateDevice (populate ov (find_adapter hAdapter) req)) =
     (if DXGKDDI_INTERFACE_VERSION_WDDM2_0 \<le> Version (DriverInitData (find_adapter hAdapter))
      then Pasid req else 0)"
    by (simp add: populate_def Let_def zero_LJB_DEVICE_def zero_DXGKARG_CREATEDEVICE_def)
  show K: "hKmdProcess (CreateDevice (populate ov (find_adapter hAdapter) req)) =
     (if DXGKDDI_INTERFACE_VERSION_WDDM2_0 \<le> Version (DriverInitData (find_adapter hAdapter))
      then hKmdProcess req else 0)"
    by (simp add: populate_def Let_def zero_LJB_DEVICE_def zero_DXGKARG_CREATEDEVICE_def)
  assume a: "LJB_DXGK_CreateDevice ov find_adapter p hAdapter req s = (ev, Inr r) \<and> NT_SUCCESS (status r)"
  from CreateDevice_success [of ov find_adapter p hAdapter req s ev r] a
  obtain st req' mem' d where
    t: "track (populate ov (find_adapter hAdapter) req) req' mem' = Inr d"
    and r: "r = \<lparr>status = st, request = req',
                    after = s\<lparr>Pool := insert p (Pool s), Memory := mem',
                      ClientDeviceListHead := ClientDeviceListHead s @ [(p, d)]\<rparr>\<rparr>"
    by blast
  from t have "CreateDevice d = CreateDevice (populate ov (find_adapter hAdapter) req)"
    by (auto simp add: track_def Let_def split: if_splits option.splits)
  with r P K show "\<exists>d. ClientDeviceListHead (after r) = ClientDeviceListHead s @ [(p, d)]
                 \<and> Pasid (CreateDevice d) =
                     (if DXGKDDI_INTERFACE_VERSION_WDDM2_0
                           \<le> Version (DriverInitData (find_adapter hAdapter))
                      then Pasid req else 0)
                 \<and> hKmdProcess (CreateDevice d) =
                     (if DXGKDDI_INTERFACE_VERSION_WDDM2_0
                           \<le> Version (DriverInitData (find_adapter hAdapter))
                      then hKmdProcess req else 0)"
    by simp
qed

text \<open>
  Below the threshold (version 0x300E) and at it, on the request with \<open>Pasid = 7\<close> and
  \<open>hKmdProcess = 0x55\<close>.
\<close>

theorem process_association_witness:
  "(\<exists>ev r d. LJB_DXGK_CreateDevice separate_members (example_adapter 0x300E 0 0x200 1)
                 0x1000 1 example_request empty_state = (ev, Inr r)
        \<and> ClientDeviceListHead (after r) = [(0x1000, d)]
        \<and> Pasid (CreateDevice d) = 0 \<and> hKmdProcess (CreateDevice d) = 0)
   \<and> (\<exists>ev r d. LJB_DXGK_CreateDevice separate_members (example_adapter 0x5023 0 0x200 1)
                 0x1000 1 example_request empty_state = (ev, Inr r)
        \<and> ClientDeviceListHead (after r) = [(0x1000, d)]
        \<and> Pasid (CreateDevice d) = 7 \<and> hKmdProcess (CreateDevice d) = 0x55)"
proof -
  have 1: "(0x1000 :: PVOID) \<noteq> NULL" by (simp add: NULL_def)
  have ok: "NT_SUCCESS 0" by (simp add: NT_SUCCESS_def)
  obtain ev r where a:
    "LJB_DXGK_CreateDevice separate_members (example_adapter 0x300E 0 0x200 1)
       0x1000 1 example_request empty_state = (ev, Inr r)" "status r = 0"
    using example_driver_returns [OF 1] by blast
  obtain ev' r' where b:
    "LJB_DXGK_CreateDevice separate_members (example_adapter 0x5023 0 0x200 1)
       0x1000 1 example_request empty_state = (ev', Inr r')" "status r' = 0"
    using example_driver_returns [OF 1] by blast
  have low: "\<not> DXGKDDI_INTERFACE_VERSION_WDDM2_0 \<le> Version (DriverInitData (example_adapter 0x300E 0 0x200 1 1))"
    by (simp add: DXGKDDI_INTERFACE_VERSION_WDDM2_0_def example_adapter_def)
  have high: "DXGKDDI_INTERFACE_VERSION_WDDM2_0 \<le> Version (DriverInitData (example_adapter 0x5023 0 0x200 1 1))"
    by (simp add: DXGKDDI_INTERFACE_VERSION_WDDM2_0_def example_adapter_def)
  from process_association [of separate_members "example_adapter 0x300E 0 0x200 1" 1 example_request
      "0x1000" empty_state ev r] a ok low
  have A: "\<exists>d. ClientDeviceListHead (after r) = [(0x1000, d)]
        \<and> Pasid (CreateDevice d) = 0 \<and> hKmdProcess (CreateDevice d) = 0"
    by (auto simp add: empty_state_def)
  from process_association [of separate_members "example_adapter 0x5023 0 0x200 1" 1 example_request
      "0x1000" empty_state ev' r'] b ok high
  have B: "\<exists>d. ClientDeviceListHead (after r') = [(0x1000, d)]
        \<and> Pasid (CreateDevice d) = 7 \<and> hKmdProcess (CreateDevice d) = 0x55"
    by (auto simp add: empty_state_def example_request_def)
  from a(1) A b(1) B show ?thesis by blast
qed

text \<open>
  C5, as amended. For every operation that allocated its record: the record's \<open>hDevice\<close>
  is zero when the driver is called. If the operation returns, the record is in the list
  if and only if the driver's status is a success; on success the list is the old list
  with the record at its tail, carrying the driver's handle, and the store into
  \<open>hDevice\<close> happens once, after the downstream call and before the one insertion; on
  failure the list is as before and \<open>hDevice\<close> is never stored. The operation does not
  return only when the driver succeeded and the read of its info block faults, no block
  being readable behind the request's \<open>pInfo\<close>: then \<open>hDevice\<close> has been stored once, after
  the downstream call, and nothing has been inserted.
\<close>

theorem registry_iff_driver_succeeded:
  assumes "p \<noteq> NULL"
    and "p \<notin> fst ` set (ClientDeviceListHead s)"
    and "DxgkDdiCreateDevice (DriverInitData (find_adapter hAdapter)) hAdapter req (Memory s)
           = (st, req', mem')"
  shows "LJB_hDevice (populate ov (find_adapter hAdapter) req) = 0
     \<and> (case LJB_DXGK_CreateDevice ov find_adapter p hAdapter req s of
          (ev, Inr r) \<Rightarrow>
            (p \<in> fst ` set (ClientDeviceListHead (after r)) \<longleftrightarrow> NT_SUCCESS st)
            \<and> (if NT_SUCCESS st
                then (\<exists>d. ClientDeviceListHead (after r) = ClientDeviceListHead s @ [(p, d)]
                        \<and> LJB_hDevice d = hDevice req')
                     \<and> count_list ev (Store p M_hDevice) = 1
                     \<and> Call_DxgkDdiCreateDevice
                          \<in> set (takeWhile (\<lambda>e. e \<noteq> Store p M_hDevice) ev)
                     \<and> InsertTailList p \<in> set (dropWhile (\<lambda>e. e \<noteq> Store p M_hDevice) ev)
                     \<and> count_list ev (InsertTailList p) = 1
                else ClientDeviceListHead (after r) = ClientDeviceListHead s
                     \<and> Store p M_hDevice \<notin> set ev)
        | (ev, Inl f) \<Rightarrow>
            NT_SUCCESS st \<and> pInfo req' \<noteq> ov (Flags req) NULL \<and> mem' (pInfo req') = None
            \<and> count_list ev (Store p M_hDevice) = 1
            \<and> Call_DxgkDdiCreateDevice \<in> set (takeWhile (\<lambda>e. e \<noteq> Store p M_hDevice) ev)
            \<and> (\<forall>q. InsertTailList q \<notin> set ev))"
proof (cases "NT_SUCCESS st")
  case False
  with assms(2) show ?thesis
    by (simp add: CreateDevice_driver_failed
          [where fa = find_adapter and h = hAdapter, OF assms(1) assms(3) False]
          populate_LJB_hDevice populate_events_def)
next
  case True
  show ?thesis
  proof (cases "track (populate ov (find_adapter hAdapter) req) req' mem'")
    case (Inl f)
    then have "pInfo req' \<noteq> ov (Flags req) NULL \<and> mem' (pInfo req') = None"
      by (simp add: track_cases split: if_splits option.splits)
    with True Inl show ?thesis
      by (simp add: CreateDevice_driver_succeeded
            [where fa = find_adapter and h = hAdapter, OF assms(1) assms(3) True]
            populate_LJB_hDevice populate_events_def)
  next
    case (Inr d)
    then have h: "LJB_hDevice d = hDevice req'"
      by (auto simp add: track_def Let_def split: if_splits option.splits)
    from True Inr h show ?thesis
      by (simp add: CreateDevice_driver_succeeded
            [where fa = find_adapter and h = hAdapter, OF assms(1) assms(3) True]
            populate_LJB_hDevice populate_events_def track_events_def)
  qed
qed

text \<open>
  A run that returns: a creation into the list of one record, to which the driver gives
  a new handle.
\<close>

theorem registry_iff_driver_succeeded_witness:
  "\<exists>ev r d. LJB_DXGK_CreateDevice separate_members (example_adapter 0x5023 0 0x300 1)
                0x2000 1 (example_request\<lparr>hDevice := 0x400\<rparr>) one_device_state = (ev, Inr r)
      \<and> 0x2000 \<in> fst ` set (ClientDeviceListHead (after r))
      \<and> ClientDeviceListHead (after r) = ClientDeviceListHead one_device_state @ [(0x2000, d)]
      \<and> LJB_hDevice d = 0x300
      \<and> count_list ev (Store 0x2000 M_hDevice) = 1
      \<and> Call_DxgkDdiCreateDevice \<in> set (takeWhile (\<lambda>e. e \<noteq> Store 0x2000 M_hDevice) ev)
      \<and> InsertTailList 0x2000 \<in> set (dropWhile (\<lambda>e. e \<noteq> Store 0x2000 M_hDevice) ev)
      \<and> count_list ev (InsertTailList 0x2000) = 1"
proof -
  have 1: "(0x2000 :: PVOID) \<noteq> NULL" by (simp add: NULL_def)
  have 2: "(0x2000 :: PVOID) \<notin> fst ` set (ClientDeviceListHead one_device_state)"
    by (simp add: one_device_state_def)
  have 3: "DxgkDdiCreateDevice (DriverInitData (example_adapter 0x5023 0 0x300 1 1)) 1
             (example_request\<lparr>hDevice := 0x400\<rparr>) (Memory one_device_state)
           = (0, example_request\<lparr>hDevice := 0x300\<rparr>, Memory one_device_state)"
    by (simp add: example_adapter_def example_driver_def example_request_def one_device_state_def)
  have ok: "NT_SUCCESS 0" by (simp add: NT_SUCCESS_def)
  obtain ev r where a:
    "LJB_DXGK_CreateDevice separate_members (example_adapter 0x5023 0 0x300 1)
       0x2000 1 (example_request\<lparr>hDevice := 0x400\<rparr>) one_device_state = (ev, Inr r)"
    using example_driver_returns [OF 1] by blast
  from registry_iff_driver_succeeded [where find_adapter = "example_adapter 0x5023 0 0x300 1"
      and hAdapter = 1 and ov = separate_members, OF 1 2 3] a ok
  have "0x2000 \<in> fst ` set (ClientDeviceListHead (after r))
      \<and> (\<exists>d. ClientDeviceListHead (after r) = ClientDeviceListHead one_device_state @ [(0x2000, d)]
      \<and> LJB_hDevice d = 0x300)
      \<and> count_list ev (Store 0x2000 M_hDevice) = 1
      \<and> Call_DxgkDdiCreateDevice \<in> set (takeWhile (\<lambda>e. e \<noteq> Store 0x2000 M_hDevice) ev)
      \<and> InsertTailList 0x2000 \<in> set (dropWhile (\<lambda>e. e \<noteq> Store 0x2000 M_hDevice) ev)
      \<and> count_list ev (InsertTailList 0x2000) = 1"
    by (simp add: example_request_def)
  with a show ?thesis by blast
qed

text \<open>
  C5 as stated fails on a run that faults: the driver succeeds (status 0) and writes an
  info pointer, 0x7000, behind which nothing is readable. The read of line 120 faults
  after the handle has been stored; the operation makes no insertion and does not
  return, so the record of a successful creation is not in the list. The same happens
  with either layout.
\<close>

theorem registry_iff_driver_succeeded_counterexample:
  "LJB_DXGK_CreateDevice separate_members (dangling_adapter 0x5023 0 0x200 0x7000)
       0x1000 1 example_request empty_state
     = ([GetPoolZero 0x1000, Store 0x1000 M_ListEntry, Store 0x1000 M_hRTDevice,
         Store 0x1000 M_Adapter, Store 0x1000 M_CreateDevice_hDevice,
         Store 0x1000 M_CreateDevice_Flags, Store 0x1000 M_CreateDevice_Pasid,
         Store 0x1000 M_CreateDevice_hKmdProcess, Call_DxgkDdiCreateDevice,
         Store 0x1000 M_hDevice],
        Inl AccessViolation)
   \<and> LJB_DXGK_CreateDevice shared_members (dangling_adapter 0x5023 0 0x200 0x7000)
       0x1000 1 example_request empty_state
     = ([GetPoolZero 0x1000, Store 0x1000 M_ListEntry, Store 0x1000 M_hRTDevice,
         Store 0x1000 M_Adapter, Store 0x1000 M_CreateDevice_hDevice,
         Store 0x1000 M_CreateDevice_Flags, Store 0x1000 M_CreateDevice_Pasid,
         Store 0x1000 M_CreateDevice_hKmdProcess, Call_DxgkDdiCreateDevice,
         Store 0x1000 M_hDevice],
        Inl AccessViolation)
   \<and> fst (dangling_driver 0 0x200 0x7000 1 example_request (Memory empty_state)) = 0
   \<and> NT_SUCCESS 0"
  by (simp add: model_defs example_defs)

text \<open>
  C6, as amended. After a creation that returns a success status, provided no record
  already in the list carries the driver-assigned handle, \<open>LJB_DXGK_FindDevice\<close> on that
  handle returns the new record, that record is the only one in the list with the
  handle, and its \<open>hRTDevice\<close> is the handle the caller passed in the request before the
  driver overwrote it.
\<close>

theorem created_device_is_found:
  assumes "LJB_DXGK_CreateDevice ov find_adapter p hAdapter req s = (ev, Inr r)"
    and "NT_SUCCESS (status r)"
    and "\<forall>e \<in> set (ClientDeviceListHead s). \<not> keyed_by (hDevice (request r)) e"
  shows "fst (snd (LJB_DXGK_FindDevice (hDevice (request r)) (after r))) = p
     \<and> (\<exists>d. filter (keyed_by (hDevice (request r))) (ClientDeviceListHead (after r)) = [(p, d)]
            \<and> hRTDevice d = hDevice req)"
proof -
  from CreateDevice_success [OF assms(1) assms(2)]
  obtain st req' mem' d where
    t: "track (populate ov (find_adapter hAdapter) req) req' mem' = Inr d"
    and r: "r = \<lparr>status = st, request = req',
                    after = s\<lparr>Pool := insert p (Pool s), Memory := mem',
                      ClientDeviceListHead := ClientDeviceListHead s @ [(p, d)]\<rparr>\<rparr>"
    by blast
  from t have h: "LJB_hDevice d = hDevice req'" and rt: "hRTDevice d = hDevice req"
    by (auto simp add: track_def Let_def populate_hRTDevice split: if_splits option.splits)
  from assms(3) r have nm: "\<forall>e \<in> set (ClientDeviceListHead s). \<not> keyed_by (hDevice req') e"
    by simp
  show ?thesis
    using scan_append_new [OF nm h, of p] filter_append_new [OF nm h, of p] rt
    by (simp add: r LJB_DXGK_FindDevice_def)
qed

theorem created_device_is_found_witness:
  "\<exists>ev r d. LJB_DXGK_CreateDevice separate_members (example_adapter 0x5023 0 0x300 1)
                0x2000 1 (example_request\<lparr>hDevice := 0x400\<rparr>) one_device_state = (ev, Inr r)
      \<and> fst (snd (LJB_DXGK_FindDevice 0x300 (after r))) = 0x2000
      \<and> filter (keyed_by 0x300) (ClientDeviceListHead (after r)) = [(0x2000, d)]
      \<and> hRTDevice d = 0x400"
proof -
  have 1: "(0x2000 :: PVOID) \<noteq> NULL" by (simp add: NULL_def)
  have ok: "NT_SUCCESS 0" by (simp add: NT_SUCCESS_def)
  obtain ev r where a:
    "LJB_DXGK_CreateDevice separate_members (example_adapter 0x5023 0 0x300 1)
       0x2000 1 (example_request\<lparr>hDevice := 0x400\<rparr>) one_device_state = (ev, Inr r)"
    and st: "status r = 0"
    and rq: "request r = example_request\<lparr>hDevice := 0x400\<rparr>\<lparr>hDevice := 0x300, pInfo := 1\<rparr>"
    using example_driver_returns [OF 1] by blast
  have h: "hDevice (request r) = 0x300" by (simp add: rq)
  have 2: "NT_SUCCESS (status r)" by (simp add: st ok)
  have 3: "\<forall>e \<in> set (ClientDeviceListHead one_device_state). \<not> keyed_by (hDevice (request r)) e"
    by (simp add: h one_device_state_def keyed_by_def example_device_def)
  from created_device_is_found [OF a 2 3]
  have "fst (snd (LJB_DXGK_FindDevice 0x300 (after r))) = 0x2000
      \<and> (\<exists>d. filter (keyed_by 0x300) (ClientDeviceListHead (after r)) = [(0x2000, d)]
      \<and> hRTDevice d = 0x400)"
    by (simp add: h)
  with a show ?thesis by blast
qed

text \<open>
  C6 as stated fails when the driver assigns a handle a listed record already carries:
  after two creations to which the driver gave the handle 0x200, the lookup of 0x200
  returns the first record (at 0x1000, runtime handle 0x100), not the one just created
  (at 0x2000, runtime handle 0x300), and two records match.
\<close>

theorem created_device_is_found_counterexample:
  "snd (LJB_DXGK_CreateDevice separate_members (example_adapter 0x5023 0 0x200 1)
          0x1000 1 example_request empty_state)
     = Inr \<lparr>status = 0, request = example_request\<lparr>hDevice := 0x200\<rparr>, after = one_device_state\<rparr>
   \<and> snd (LJB_DXGK_CreateDevice separate_members (example_adapter 0x5023 0 0x200 1)
          0x2000 1 (example_request\<lparr>hDevice := 0x300\<rparr>) one_device_state)
     = Inr \<lparr>status = 0, request = example_request\<lparr>hDevice := 0x200\<rparr>, after = two_devices_state\<rparr>
   \<and> fst (snd (LJB_DXGK_FindDevice 0x200 two_devices_state)) = 0x1000
   \<and> map fst (filter (keyed_by 0x200) (ClientDeviceListHead two_devices_state)) = [0x1000, 0x2000]
   \<and> map (hRTDevice \<circ> snd) (filter (keyed_by 0x200) (ClientDeviceListHead two_devices_state))
       = [0x100, 0x300]"
  by (simp add: model_defs example_defs LJB_DXGK_FindDevice_def keyed_by_def insert_commute)

text \<open>
  C7. \<open>LJB_DXGK_FindDevice\<close> returns the address of the first entry of the list, in list
  order, whose record carries the handle, and \<open>NULL\<close> when there is none; it visits the
  entries in list order up to and including that first match, between acquiring and
  releasing the lock; it leaves the state as it was. Its result is a pointer: there is
  no error to signal.
\<close>

theorem FindDevice_first_match:
  "fst (snd (LJB_DXGK_FindDevice h s)) =
     (case find (keyed_by h) (ClientDeviceListHead s) of None \<Rightarrow> NULL | Some e \<Rightarrow> fst e)
   \<and> snd (snd (LJB_DXGK_FindDevice h s)) = s
   \<and> fst (LJB_DXGK_FindDevice h s) =
       KeAcquireSpinLock
       # map (Visit \<circ> fst)
           (takeWhile (\<lambda>e. \<not> keyed_by h e) (ClientDeviceListHead s)
            @ take 1 (dropWhile (\<lambda>e. \<not> keyed_by h e) (ClientDeviceListHead s)))
       @ [KeReleaseSpinLock]
   \<and> ((\<forall>e \<in> set (ClientDeviceListHead s). \<not> keyed_by h e)
        \<longrightarrow> fst (snd (LJB_DXGK_FindDevice h s)) = NULL)"
proof (intro conjI impI)
  show "fst (snd (LJB_DXGK_FindDevice h s)) =
     (case find (keyed_by h) (ClientDeviceListHead s) of None \<Rightarrow> NULL | Some e \<Rightarrow> fst e)"
    by (simp add: LJB_DXGK_FindDevice_def scan_find)
  show "snd (snd (LJB_DXGK_FindDevice h s)) = s"
    by (simp add: LJB_DXGK_FindDevice_def)
  show "fst (LJB_DXGK_FindDevice h s) =
       KeAcquireSpinLock
       # map (Visit \<circ> fst)
           (takeWhile (\<lambda>e. \<not> keyed_by h e) (ClientDeviceListHead s)
            @ take 1 (dropWhile (\<lambda>e. \<not> keyed_by h e) (ClientDeviceListHead s)))
       @ [KeReleaseSpinLock]"
    unfolding LJB_DXGK_FindDevice_def scan_events_prefix by simp
  assume "\<forall>e \<in> set (ClientDeviceListHead s). \<not> keyed_by h e"
  then show "fst (snd (LJB_DXGK_FindDevice h s)) = NULL"
    by (simp add: LJB_DXGK_FindDevice_def scan_no_match)
qed

text \<open>
  On the list of two records that both carry the handle 0x200: the first is returned;
  a handle no record carries gives \<open>NULL\<close> after both have been visited.
\<close>

theorem FindDevice_first_match_witness:
  "fst (snd (LJB_DXGK_FindDevice 0x200 two_devices_state)) = 0x1000
   \<and> fst (snd (LJB_DXGK_FindDevice 0x999 two_devices_state)) = NULL
   \<and> snd (snd (LJB_DXGK_FindDevice 0x999 two_devices_state)) = two_devices_state
   \<and> fst (LJB_DXGK_FindDevice 0x200 two_devices_state)
       = [KeAcquireSpinLock, Visit 0x1000, KeReleaseSpinLock]
   \<and> fst (LJB_DXGK_FindDevice 0x999 two_devices_state)
       = [KeAcquireSpinLock, Visit 0x1000, Visit 0x2000, KeReleaseSpinLock]"
proof -
  have none: "\<forall>e \<in> set (ClientDeviceListHead two_devices_state). \<not> keyed_by 0x999 e"
    by (simp add: two_devices_state_def keyed_by_def example_device_def)
  from FindDevice_first_match [of "0x200" two_devices_state]
  have A: "fst (snd (LJB_DXGK_FindDevice 0x200 two_devices_state)) = 0x1000
     \<and> fst (LJB_DXGK_FindDevice 0x200 two_devices_state)
       = [KeAcquireSpinLock, Visit 0x1000, KeReleaseSpinLock]"
    by (simp add: two_devices_state_def keyed_by_def example_device_def)
  from FindDevice_first_match [of "0x999" two_devices_state] none
  have B: "fst (snd (LJB_DXGK_FindDevice 0x999 two_devices_state)) = NULL
     \<and> snd (snd (LJB_DXGK_FindDevice 0x999 two_devices_state)) = two_devices_state
     \<and> fst (LJB_DXGK_FindDevice 0x999 two_devices_state)
       = [KeAcquireSpinLock, Visit 0x1000, Visit 0x2000, KeReleaseSpinLock]"
    by (simp add: two_devices_state_def keyed_by_def example_device_def)
  from A B show ?thesis by simp
qed

text \<open>
  C8. Along every run of \<open>LJB_DXGK_CreateDevice\<close> and of \<open>LJB_DXGK_FindDevice\<close> the lock
  discipline holds: the allocation, the stores into the shadow record, the downstream
  call and the release of the block happen with the lock free; the lock is held exactly
  around the tail insertion or the lookup loop; and the lock is free when the operation
  ends.
\<close>

theorem lock_held_only_around_list_access:
  "lock_discipline False (fst (LJB_DXGK_CreateDevice ov find_adapter p hAdapter req s))
   \<and> lock_discipline False (fst (LJB_DXGK_FindDevice h s'))"
proof
  show "lock_discipline False (fst (LJB_DXGK_FindDevice h s'))"
    by (simp add: LJB_DXGK_FindDevice_def lock_discipline_scan)
  show "lock_discipline False (fst (LJB_DXGK_CreateDevice ov find_adapter p hAdapter req s))"
  proof (cases "p = NULL")
    case True
    then show ?thesis by (simp add: CreateDevice_no_memory)
  next
    case False
    obtain st req' mem' where
      drv: "DxgkDdiCreateDevice (DriverInitData (find_adapter hAdapter)) hAdapter req (Memory s)
              = (st, req', mem')"
      by (cases "DxgkDdiCreateDevice (DriverInitData (find_adapter hAdapter)) hAdapter req (Memory s)")
    show ?thesis
    proof (cases "NT_SUCCESS st")
      case f: False
      show ?thesis
        by (simp add: CreateDevice_driver_failed [where fa = find_adapter and h = hAdapter, OF False drv f]
              lock_discipline_free_append lock_discipline_populate)
    next
      case t: True
      show ?thesis
        by (auto simp add: CreateDevice_driver_succeeded [where fa = find_adapter and h = hAdapter, OF False drv t]
              lock_discipline_populate lock_discipline_track
              intro!: lock_discipline_free_append split: sum.splits)
    qed
  qed
qed

theorem lock_held_only_around_list_access_witness:
  "lock_discipline False
     (fst (LJB_DXGK_CreateDevice separate_members (example_adapter 0x5023 0 0x200 1)
             0x1000 1 example_request empty_state))
   \<and> lock_discipline False (fst (LJB_DXGK_FindDevice 0x200 two_devices_state))"
  by (rule lock_held_only_around_list_access)

text \<open>
  C9. Once the record is allocated and the downstream driver has returned its status,
  whatever \<open>LJB_DXGK_CreateDevice\<close> returns is that status, on the failure path and on the
  success path alike. The only runs that return nothing are those that fault reading
  the driver's info block after a success status.
\<close>

theorem status_passed_through:
  assumes "p \<noteq> NULL"
    and "DxgkDdiCreateDevice (DriverInitData (find_adapter hAdapter)) hAdapter req (Memory s)
           = (st, req', mem')"
  shows "case snd (LJB_DXGK_CreateDevice ov find_adapter p hAdapter req s) of
           Inr r \<Rightarrow> status r = st
         | Inl f \<Rightarrow> NT_SUCCESS st \<and> pInfo req' \<noteq> ov (Flags req) NULL
                      \<and> mem' (pInfo req') = None"
proof (cases "NT_SUCCESS st")
  case False
  then show ?thesis
    by (simp add: CreateDevice_driver_failed [where fa = find_adapter and h = hAdapter, OF assms])
next
  case True
  then show ?thesis
    by (simp add: CreateDevice_driver_succeeded [where fa = find_adapter and h = hAdapter, OF assms]
          track_cases split: option.splits)
qed

text \<open>
  The success status 0x40000000, which is not \<open>STATUS_SUCCESS\<close>, is returned as it is.
\<close>

theorem status_passed_through_witness:
  "(case snd (LJB_DXGK_CreateDevice separate_members (example_adapter 0x5023 0x40000000 0x200 0x7000)
             0x1000 1 example_request empty_state) of
      Inr r \<Rightarrow> status r = 0x40000000
    | Inl f \<Rightarrow> False)
   \<and> NT_SUCCESS 0x40000000 \<and> (0x40000000 :: NTSTATUS) \<noteq> 0"
proof -
  have 1: "(0x1000 :: PVOID) \<noteq> NULL" by (simp add: NULL_def)
  have 3: "DxgkDdiCreateDevice (DriverInitData (example_adapter 0x5023 0x40000000 0x200 0x7000 1)) 1
             example_request (Memory empty_state)
           = (0x40000000, example_request\<lparr>hDevice := 0x200, pInfo := 0x7000\<rparr>,
              (Memory empty_state)(0x7000 := Some 42))"
    by (simp add: example_adapter_def example_driver_def)
  show ?thesis
    using status_passed_through [where find_adapter = "example_adapter 0x5023 0x40000000 0x200 0x7000"
        and hAdapter = 1 and ov = separate_members, OF 1 3]
    by (auto simp add: NT_SUCCESS_def split: sum.splits)
qed

text \<open>
  C10. When the downstream driver fails, the caller's request is left as the driver
  left it: what the driver wrote into it before failing is not undone.
\<close>

theorem request_not_restored:
  assumes "p \<noteq> NULL"
    and "DxgkDdiCreateDevice (DriverInitData (find_adapter hAdapter)) hAdapter req (Memory s)
           = (st, req', mem')"
    and "\<not> NT_SUCCESS st"
  shows "\<exists>ev r. LJB_DXGK_CreateDevice ov find_adapter p hAdapter req s = (ev, Inr r)
           \<and> request r = req' \<and> status r = st"
  by (simp add: CreateDevice_driver_failed [where fa = find_adapter and h = hAdapter, OF assms])

text \<open>
  The driver writes its handle and an info pointer into the request and fails: the
  request the caller sees differs from the one it passed.
\<close>

theorem request_not_restored_witness:
  "\<exists>ev r. LJB_DXGK_CreateDevice separate_members (example_adapter 0x5023 0xC000000D 0x200 0x7000)
             0x1000 1 example_request empty_state = (ev, Inr r)
           \<and> request r = example_request\<lparr>hDevice := 0x200, pInfo := 0x7000\<rparr>
           \<and> request r \<noteq> example_request
           \<and> status r = 0xC000000D"
proof -
  have 1: "(0x1000 :: PVOID) \<noteq> NULL" by (simp add: NULL_def)
  have 3: "DxgkDdiCreateDevice (DriverInitData (example_adapter 0x5023 0xC000000D 0x200 0x7000 1)) 1
             example_request (Memory empty_state)
           = (0xC000000D, example_request\<lparr>hDevice := 0x200, pInfo := 0x7000\<rparr>,
              (Memory empty_state)(0x7000 := Some 42))"
    by (simp add: example_adapter_def example_driver_def)
  have 4: "\<not> NT_SUCCESS 0xC000000D" by (simp add: NT_SUCCESS_def)
  show ?thesis
    using request_not_restored [where find_adapter = "example_adapter 0x5023 0xC000000D 0x200 0x7000"
        and hAdapter = 1 and ov = separate_members, OF 1 3 4]
    by (auto simp add: example_request_def)
qed

end
